theory Spec2Isabelle
  imports Main "HOL-Library.Word"
begin

section \<open>The SystemAlarms record\<close>

text \<open>
  Modelled from the spec: the enumeration \<open>SystemAlarmsAlarmOptions\<close> is declared in
  the generated header of the SystemAlarms object, which is not among the sources. The
  spec gives its members and their order,
  \<open>Uninitialized < Ok < Warning < Error < Critical\<close>. A C enumeration numbers its
  members from 0 in the order of declaration; \<open>options_value\<close> is that number, and the
  comparisons \<open>!=\<close> and \<open>>=\<close> of alarms.c are comparisons of these numbers.
\<close>

datatype SystemAlarmsAlarmOptions =
    SYSTEMALARMS_ALARM_UNINITIALISED
  | SYSTEMALARMS_ALARM_OK
  | SYSTEMALARMS_ALARM_WARNING
  | SYSTEMALARMS_ALARM_ERROR
  | SYSTEMALARMS_ALARM_CRITICAL

fun options_value :: "SystemAlarmsAlarmOptions \<Rightarrow> nat" where
  "options_value SYSTEMALARMS_ALARM_UNINITIALISED = 0"
| "options_value SYSTEMALARMS_ALARM_OK = 1"
| "options_value SYSTEMALARMS_ALARM_WARNING = 2"
| "options_value SYSTEMALARMS_ALARM_ERROR = 3"
| "options_value SYSTEMALARMS_ALARM_CRITICAL = 4"

text \<open>
  Modelled from the spec: \<open>SystemAlarmsData\<close> is the struct of the same generated
  header. alarms.c uses three array fields of it: \<open>Alarm\<close>, of dimension
  \<open>SYSTEMALARMS_ALARM_NUMELEM\<close> (the spec's N), and \<open>ExtendedAlarmStatus\<close> and
  \<open>ExtendedAlarmSubStatus\<close>, which hold the two small unsigned integers of the
  extended alarms, the identifiers below \<open>SYSTEMALARMS_EXTENDEDALARMSTATUS_NUMELEM\<close>
  (the spec's M, with M \<le> N). The two dimensions are parameters of the operations
  below, \<open>ALARM_NUMELEM\<close> and \<open>EXTENDEDALARMSTATUS_NUMELEM\<close>.
\<close>

record SystemAlarmsData =
  Alarm :: "SystemAlarmsAlarmOptions list"
  ExtendedAlarmStatus :: "8 word list"
  ExtendedAlarmSubStatus :: "8 word list"

text \<open>
  The arrays of a record have the dimensions of the struct. Every index that alarms.c
  uses after its range check is then inside its array; a property that depends on the
  value stored at an index assumes the dimension.
\<close>

definition wellformed :: "nat \<Rightarrow> nat \<Rightarrow> SystemAlarmsData \<Rightarrow> bool" where
  "wellformed ALARM_NUMELEM EXTENDEDALARMSTATUS_NUMELEM d \<longleftrightarrow>
     length (Alarm d) = ALARM_NUMELEM \<and>
     length (ExtendedAlarmStatus d) = EXTENDEDALARMSTATUS_NUMELEM \<and>
     length (ExtendedAlarmSubStatus d) = EXTENDEDALARMSTATUS_NUMELEM \<and>
     EXTENDEDALARMSTATUS_NUMELEM \<le> ALARM_NUMELEM"

section \<open>The environment of alarms.c\<close>

text \<open>
  alarms.c acts on two things outside it: the stored SystemAlarms record, through
  \<open>SystemAlarmsGet\<close> and \<open>SystemAlarmsSet\<close>, and the recursive mutex \<open>lock\<close>,
  through \<open>xSemaphoreTakeRecursive\<close> and \<open>xSemaphoreGiveRecursive\<close>. Every call of
  one of the four is recorded in a trace, oldest first, so that the number and the order
  of reads, write-backs and lock operations of a call can be stated.
\<close>

datatype event =
    TakeRecursive bool
  | GiveRecursive
  | ObjGet
  | ObjSet SystemAlarmsData

record system =
  object :: SystemAlarmsData
  lock_free :: bool
  lock_depth :: nat
  trace :: "event list"

text \<open>
  Modelled from the spec: the mutex is reentrant, and its acquisition can fail
  (\<open>LockError\<close>). \<open>lock_free\<close> says whether the calling task obtains the mutex:
  then the take returns pdTRUE and the task holds it once more; otherwise the take
  returns pdFALSE and nothing is held. A give releases one hold, if there is one.
\<close>

definition xSemaphoreTakeRecursive :: "system \<Rightarrow> bool \<times> system" where
  "xSemaphoreTakeRecursive s =
     (if lock_free s
      then (True, s\<lparr>lock_depth := Suc (lock_depth s), trace := trace s @ [TakeRecursive True]\<rparr>)
      else (False, s\<lparr>trace := trace s @ [TakeRecursive False]\<rparr>))"

definition xSemaphoreGiveRecursive :: "system \<Rightarrow> system" where
  "xSemaphoreGiveRecursive s =
     s\<lparr>lock_depth := (if lock_depth s = 0 then 0 else lock_depth s - 1),
       trace := trace s @ [GiveRecursive]\<rparr>"

text \<open>
  Modelled from the spec: the external store reads the whole record by value
  (\<open>ReadRecord\<close>) and replaces the whole record (\<open>WriteRecord\<close>).
\<close>

definition SystemAlarmsGet :: "system \<Rightarrow> SystemAlarmsData \<times> system" where
  "SystemAlarmsGet s = (object s, s\<lparr>trace := trace s @ [ObjGet]\<rparr>)"

definition SystemAlarmsSet :: "SystemAlarmsData \<Rightarrow> system \<Rightarrow> system" where
  "SystemAlarmsSet d s = s\<lparr>object := d, trace := trace s @ [ObjSet d]\<rparr>"

text \<open>The write-backs of a trace are its \<open>ObjSet\<close> events.\<close>

fun is_write :: "event \<Rightarrow> bool" where
  "is_write (ObjSet d) = True"
| "is_write e = False"

definition write_backs :: "event list \<Rightarrow> nat" where
  "write_backs tr = length (filter is_write tr)"

section \<open>The operations of alarms.c\<close>

text \<open>
  Each operation takes the state of the environment and returns its C result with the
  new state. The results of type int32_t are 0, 1 and -1 only. \<open>AlarmsInitialize\<close>
  only creates the record and the mutex, through the environment; a value of type
  \<open>system\<close> is a state after it.
\<close>

definition AlarmsSet ::
  "nat \<Rightarrow> nat \<Rightarrow> SystemAlarmsAlarmOptions \<Rightarrow> system \<Rightarrow> int \<times> system" where
  "AlarmsSet ALARM_NUMELEM alarm severity s =
     (if alarm \<ge> ALARM_NUMELEM then (- 1, s)
      else
        case xSemaphoreTakeRecursive s of
          (False, s1) \<Rightarrow> (- 1, s1)
        | (True, s1) \<Rightarrow>
            (case SystemAlarmsGet s1 of
               (alarms, s2) \<Rightarrow>
                 let s3 =
                   (if Alarm alarms ! alarm \<noteq> severity
                    then SystemAlarmsSet
                           (alarms\<lparr>Alarm := (Alarm alarms)[alarm := severity]\<rparr>) s2
                    else s2)
                 in (0, xSemaphoreGiveRecursive s3)))"

definition ExtendedAlarmsSet ::
  "nat \<Rightarrow> nat \<Rightarrow> SystemAlarmsAlarmOptions \<Rightarrow> 8 word \<Rightarrow> 8 word \<Rightarrow> system \<Rightarrow> int \<times> system" where
  "ExtendedAlarmsSet EXTENDEDALARMSTATUS_NUMELEM alarm severity status subStatus s =
     (if alarm \<ge> EXTENDEDALARMSTATUS_NUMELEM then (- 1, s)
      else
        case xSemaphoreTakeRecursive s of
          (False, s1) \<Rightarrow> (- 1, s1)
        | (True, s1) \<Rightarrow>
            (case SystemAlarmsGet s1 of
               (alarms, s2) \<Rightarrow>
                 let s3 =
                   (if Alarm alarms ! alarm \<noteq> severity
                    then SystemAlarmsSet
                           (alarms\<lparr>ExtendedAlarmStatus :=
                                      (ExtendedAlarmStatus alarms)[alarm := status],
                                    ExtendedAlarmSubStatus :=
                                      (ExtendedAlarmSubStatus alarms)[alarm := subStatus],
                                    Alarm := (Alarm alarms)[alarm := severity]\<rparr>) s2
                    else s2)
                 in (0, xSemaphoreGiveRecursive s3)))"

text \<open>
  \<open>AlarmsGet\<close> returns the literal 0 for an identifier out of range, which as a
  \<open>SystemAlarmsAlarmOptions\<close> is the member numbered 0.
\<close>

definition AlarmsGet ::
  "nat \<Rightarrow> nat \<Rightarrow> system \<Rightarrow> SystemAlarmsAlarmOptions \<times> system" where
  "AlarmsGet ALARM_NUMELEM alarm s =
     (if alarm \<ge> ALARM_NUMELEM then (SYSTEMALARMS_ALARM_UNINITIALISED, s)
      else
        case SystemAlarmsGet s of
          (alarms, s1) \<Rightarrow> (Alarm alarms ! alarm, s1))"

definition AlarmsClear :: "nat \<Rightarrow> nat \<Rightarrow> nat \<Rightarrow> system \<Rightarrow> int \<times> system" where
  "AlarmsClear ALARM_NUMELEM EXTENDEDALARMSTATUS_NUMELEM alarm s =
     (if alarm < EXTENDEDALARMSTATUS_NUMELEM
      then ExtendedAlarmsSet EXTENDEDALARMSTATUS_NUMELEM alarm SYSTEMALARMS_ALARM_OK 0 0 s
      else AlarmsSet ALARM_NUMELEM alarm SYSTEMALARMS_ALARM_OK s)"

text \<open>
  \<open>SYSTEMALARMS_ALARM_DEFAULT\<close> is a macro of the absent header inc/alarms.h, so the
  default severity is the parameter \<open>ALARM_DEFAULT\<close>. The loops of
  \<open>AlarmsDefaultAll\<close> and \<open>AlarmsClearAll\<close> run \<open>n\<close> from 0 to the last
  identifier and drop the result of each call.
\<close>

definition AlarmsDefault ::
  "nat \<Rightarrow> SystemAlarmsAlarmOptions \<Rightarrow> nat \<Rightarrow> system \<Rightarrow> int \<times> system" where
  "AlarmsDefault ALARM_NUMELEM ALARM_DEFAULT alarm s =
     AlarmsSet ALARM_NUMELEM alarm ALARM_DEFAULT s"

function AlarmsDefaultAll_from ::
  "nat \<Rightarrow> SystemAlarmsAlarmOptions \<Rightarrow> nat \<Rightarrow> system \<Rightarrow> system" where
  "AlarmsDefaultAll_from ALARM_NUMELEM ALARM_DEFAULT n s =
     (if n < ALARM_NUMELEM
      then AlarmsDefaultAll_from ALARM_NUMELEM ALARM_DEFAULT (Suc n)
             (snd (AlarmsDefault ALARM_NUMELEM ALARM_DEFAULT n s))
      else s)"
  by pat_completeness auto
termination
  by (relation "measure (\<lambda>(N, d, n, s). N - n)") auto

declare AlarmsDefaultAll_from.simps [simp del]

definition AlarmsDefaultAll :: "nat \<Rightarrow> SystemAlarmsAlarmOptions \<Rightarrow> system \<Rightarrow> system" where
  "AlarmsDefaultAll ALARM_NUMELEM ALARM_DEFAULT s =
     AlarmsDefaultAll_from ALARM_NUMELEM ALARM_DEFAULT 0 s"

function AlarmsClearAll_from :: "nat \<Rightarrow> nat \<Rightarrow> nat \<Rightarrow> system \<Rightarrow> system" where
  "AlarmsClearAll_from ALARM_NUMELEM EXTENDEDALARMSTATUS_NUMELEM n s =
     (if n < ALARM_NUMELEM
      then AlarmsClearAll_from ALARM_NUMELEM EXTENDEDALARMSTATUS_NUMELEM (Suc n)
             (snd (AlarmsClear ALARM_NUMELEM EXTENDEDALARMSTATUS_NUMELEM n s))
      else s)"
  by pat_completeness auto
termination
  by (relation "measure (\<lambda>(N, M, n, s). N - n)") auto

declare AlarmsClearAll_from.simps [simp del]

definition AlarmsClearAll :: "nat \<Rightarrow> nat \<Rightarrow> system \<Rightarrow> system" where
  "AlarmsClearAll ALARM_NUMELEM EXTENDEDALARMSTATUS_NUMELEM s =
     AlarmsClearAll_from ALARM_NUMELEM EXTENDEDALARMSTATUS_NUMELEM 0 s"

text \<open>
  The scan of \<open>hasSeverity\<close>, from index \<open>n\<close> on: the loop
  \<open>for (n = 0; n < SYSTEMALARMS_ALARM_NUMELEM; ++n)\<close> that returns at the first
  entry of the given severity or higher.
\<close>

function hasSeverity_scan ::
  "nat \<Rightarrow> SystemAlarmsData \<Rightarrow> SystemAlarmsAlarmOptions \<Rightarrow> nat \<Rightarrow> bool" where
  "hasSeverity_scan ALARM_NUMELEM alarms severity n =
     (if n < ALARM_NUMELEM
      then (if options_value (Alarm alarms ! n) \<ge> options_value severity then True
            else hasSeverity_scan ALARM_NUMELEM alarms severity (Suc n))
      else False)"
  by pat_completeness auto
termination
  by (relation "measure (\<lambda>(N, alarms, severity, n). N - n)") auto

declare hasSeverity_scan.simps [simp del]

definition hasSeverity ::
  "nat \<Rightarrow> SystemAlarmsAlarmOptions \<Rightarrow> system \<Rightarrow> int \<times> system" where
  "hasSeverity ALARM_NUMELEM severity s =
     (case xSemaphoreTakeRecursive s of
        (taken, s1) \<Rightarrow>
          (case SystemAlarmsGet s1 of
             (alarms, s2) \<Rightarrow>
               if hasSeverity_scan ALARM_NUMELEM alarms severity 0
               then (1, xSemaphoreGiveRecursive s2)
               else (0, xSemaphoreGiveRecursive s2)))"

definition AlarmsHasWarnings :: "nat \<Rightarrow> system \<Rightarrow> int \<times> system" where
  "AlarmsHasWarnings ALARM_NUMELEM s = hasSeverity ALARM_NUMELEM SYSTEMALARMS_ALARM_WARNING s"

definition AlarmsHasErrors :: "nat \<Rightarrow> system \<Rightarrow> int \<times> system" where
  "AlarmsHasErrors ALARM_NUMELEM s = hasSeverity ALARM_NUMELEM SYSTEMALARMS_ALARM_ERROR s"

definition AlarmsHasCritical :: "nat \<Rightarrow> system \<Rightarrow> int \<times> system" where
  "AlarmsHasCritical ALARM_NUMELEM s = hasSeverity ALARM_NUMELEM SYSTEMALARMS_ALARM_CRITICAL s"

section \<open>A concrete system\<close>

text \<open>
  A record with four alarms, the first two extended, and a system that holds it with the
  mutex free and an empty trace.
\<close>

definition table0 :: SystemAlarmsData where
  "table0 =
     \<lparr>Alarm = [SYSTEMALARMS_ALARM_ERROR, SYSTEMALARMS_ALARM_OK,
               SYSTEMALARMS_ALARM_OK, SYSTEMALARMS_ALARM_UNINITIALISED],
      ExtendedAlarmStatus = [1, 0],
      ExtendedAlarmSubStatus = [2, 0]\<rparr>"

definition system0 :: system where
  "system0 = \<lparr>object = table0, lock_free = True, lock_depth = 0, trace = []\<rparr>"

text \<open>The same system when the calling task does not obtain the mutex.\<close>

definition system_busy :: system where
  "system_busy = \<lparr>object = table0, lock_free = False, lock_depth = 0, trace = []\<rparr>"

text \<open>A record whose alarms are all at OK, and a system that holds it.\<close>

definition table_ok :: SystemAlarmsData where
  "table_ok =
     \<lparr>Alarm = [SYSTEMALARMS_ALARM_OK, SYSTEMALARMS_ALARM_OK,
               SYSTEMALARMS_ALARM_OK, SYSTEMALARMS_ALARM_OK],
      ExtendedAlarmStatus = [0, 0],
      ExtendedAlarmSubStatus = [0, 0]\<rparr>"

definition system_ok :: system where
  "system_ok = \<lparr>object = table_ok, lock_free = True, lock_depth = 0, trace = []\<rparr>"

section \<open>Reads under the lock\<close>

text \<open>
  \<open>reads_locked d tr\<close> says that every read of the record in the trace \<open>tr\<close>
  happens while the calling task holds the mutex, \<open>d\<close> being the number of holds it
  has when the trace starts.
\<close>

fun reads_locked :: "nat \<Rightarrow> event list \<Rightarrow> bool" where
  "reads_locked d [] = True"
| "reads_locked d (TakeRecursive True # tr) = reads_locked (Suc d) tr"
| "reads_locked d (TakeRecursive False # tr) = reads_locked d tr"
| "reads_locked d (GiveRecursive # tr) = reads_locked (if d = 0 then 0 else d - 1) tr"
| "reads_locked d (ObjGet # tr) = (0 < d \<and> reads_locked d tr)"
| "reads_locked d (ObjSet x # tr) = reads_locked d tr"

section \<open>Properties\<close>

lemmas env_defs =
  xSemaphoreTakeRecursive_def xSemaphoreGiveRecursive_def SystemAlarmsGet_def
  SystemAlarmsSet_def

subsection \<open>What one call does\<close>

lemma AlarmsSet_out_of_range:
  "ALARM_NUMELEM \<le> alarm \<Longrightarrow> AlarmsSet ALARM_NUMELEM alarm severity s = (- 1, s)"
  by (simp add: AlarmsSet_def)

lemma AlarmsSet_lock_failed:
  "alarm < ALARM_NUMELEM \<Longrightarrow> \<not> lock_free s \<Longrightarrow>
   AlarmsSet ALARM_NUMELEM alarm severity s =
     (- 1, s\<lparr>trace := trace s @ [TakeRecursive False]\<rparr>)"
  by (simp add: AlarmsSet_def env_defs)

lemma AlarmsSet_eq:
  "alarm < ALARM_NUMELEM \<Longrightarrow> lock_free s \<Longrightarrow> Alarm (object s) ! alarm = severity \<Longrightarrow>
   AlarmsSet ALARM_NUMELEM alarm severity s =
     (0, s\<lparr>trace := trace s @ [TakeRecursive True, ObjGet, GiveRecursive]\<rparr>)"
  by (simp add: AlarmsSet_def env_defs)

lemma AlarmsSet_neq:
  "alarm < ALARM_NUMELEM \<Longrightarrow> lock_free s \<Longrightarrow> Alarm (object s) ! alarm \<noteq> severity \<Longrightarrow>
   AlarmsSet ALARM_NUMELEM alarm severity s =
     (0, s\<lparr>object := (object s)\<lparr>Alarm := (Alarm (object s))[alarm := severity]\<rparr>,
           trace := trace s @
             [TakeRecursive True, ObjGet,
              ObjSet ((object s)\<lparr>Alarm := (Alarm (object s))[alarm := severity]\<rparr>),
              GiveRecursive]\<rparr>)"
  by (simp add: AlarmsSet_def env_defs)

lemma ExtendedAlarmsSet_out_of_range:
  "EXTENDEDALARMSTATUS_NUMELEM \<le> alarm \<Longrightarrow>
   ExtendedAlarmsSet EXTENDEDALARMSTATUS_NUMELEM alarm severity status subStatus s = (- 1, s)"
  by (simp add: ExtendedAlarmsSet_def)

lemma ExtendedAlarmsSet_lock_failed:
  "alarm < EXTENDEDALARMSTATUS_NUMELEM \<Longrightarrow> \<not> lock_free s \<Longrightarrow>
   ExtendedAlarmsSet EXTENDEDALARMSTATUS_NUMELEM alarm severity status subStatus s =
     (- 1, s\<lparr>trace := trace s @ [TakeRecursive False]\<rparr>)"
  by (simp add: ExtendedAlarmsSet_def env_defs)

lemma ExtendedAlarmsSet_eq:
  "alarm < EXTENDEDALARMSTATUS_NUMELEM \<Longrightarrow> lock_free s \<Longrightarrow>
   Alarm (object s) ! alarm = severity \<Longrightarrow>
   ExtendedAlarmsSet EXTENDEDALARMSTATUS_NUMELEM alarm severity status subStatus s =
     (0, s\<lparr>trace := trace s @ [TakeRecursive True, ObjGet, GiveRecursive]\<rparr>)"
  by (simp add: ExtendedAlarmsSet_def env_defs)

lemma ExtendedAlarmsSet_neq:
  "alarm < EXTENDEDALARMSTATUS_NUMELEM \<Longrightarrow> lock_free s \<Longrightarrow>
   Alarm (object s) ! alarm \<noteq> severity \<Longrightarrow>
   ExtendedAlarmsSet EXTENDEDALARMSTATUS_NUMELEM alarm severity status subStatus s =
     (0, s\<lparr>object := (object s)
              \<lparr>ExtendedAlarmStatus := (ExtendedAlarmStatus (object s))[alarm := status],
               ExtendedAlarmSubStatus := (ExtendedAlarmSubStatus (object s))[alarm := subStatus],
               Alarm := (Alarm (object s))[alarm := severity]\<rparr>,
           trace := trace s @
             [TakeRecursive True, ObjGet,
              ObjSet ((object s)
                \<lparr>ExtendedAlarmStatus := (ExtendedAlarmStatus (object s))[alarm := status],
                 ExtendedAlarmSubStatus := (ExtendedAlarmSubStatus (object s))[alarm := subStatus],
                 Alarm := (Alarm (object s))[alarm := severity]\<rparr>),
              GiveRecursive]\<rparr>)"
  by (simp add: ExtendedAlarmsSet_def env_defs)

lemma write_backs_append [simp]:
  "write_backs (tr @ tr') = write_backs tr + write_backs tr'"
  by (simp add: write_backs_def)

lemma write_backs_simps [simp]:
  "write_backs [] = 0"
  "write_backs (ObjSet d # tr) = Suc (write_backs tr)"
  "write_backs (ObjGet # tr) = write_backs tr"
  "write_backs (GiveRecursive # tr) = write_backs tr"
  "write_backs (TakeRecursive b # tr) = write_backs tr"
  by (simp_all add: write_backs_def)

lemma table0_simps [simp]:
  "Alarm table0 = [SYSTEMALARMS_ALARM_ERROR, SYSTEMALARMS_ALARM_OK,
                   SYSTEMALARMS_ALARM_OK, SYSTEMALARMS_ALARM_UNINITIALISED]"
  "ExtendedAlarmStatus table0 = [1, 0]"
  "ExtendedAlarmSubStatus table0 = [2, 0]"
  by (simp_all add: table0_def)

lemma system0_simps [simp]:
  "object system0 = table0" "lock_free system0" "lock_depth system0 = 0" "trace system0 = []"
  by (simp_all add: system0_def)

lemma wellformed_table0: "wellformed 4 2 table0"
  by (simp add: wellformed_def)

text \<open>
  C1. For an extended alarm (\<open>alarm\<close> below M) whose stored severity equals the
  requested one, \<open>ExtendedAlarmsSet\<close> leaves the stored record as it was, status and
  sub-status included and whatever the requested ones, and writes nothing back; having
  taken the lock it returns 0, and the state is as before but for the trace, which gains
  the take, one read and the give. The witness is the scenario of the spec: the record
  holds (Error, 1, 2) at identifier 0 and the call is
  \<open>ExtendedAlarmsSet(0, Error, 9, 9)\<close>.
\<close>

theorem ExtendedAlarmsSet_same_severity:
  assumes "alarm < EXTENDEDALARMSTATUS_NUMELEM"
    and "Alarm (object s) ! alarm = severity"
  shows "object (snd (ExtendedAlarmsSet EXTENDEDALARMSTATUS_NUMELEM alarm severity status
           subStatus s)) = object s \<and>
         write_backs (trace (snd (ExtendedAlarmsSet EXTENDEDALARMSTATUS_NUMELEM alarm severity
           status subStatus s))) = write_backs (trace s) \<and>
         (lock_free s \<longrightarrow>
            ExtendedAlarmsSet EXTENDEDALARMSTATUS_NUMELEM alarm severity status subStatus s =
              (0, s\<lparr>trace := trace s @ [TakeRecursive True, ObjGet, GiveRecursive]\<rparr>))"
proof (cases "lock_free s")
  case True
  with assms show ?thesis
    by (simp add: ExtendedAlarmsSet_eq)
next
  case False
  with assms show ?thesis
    by (simp add: ExtendedAlarmsSet_lock_failed)
qed

theorem ExtendedAlarmsSet_same_severity_witness:
  "(0::nat) < 2 \<and> Alarm (object system0) ! 0 = SYSTEMALARMS_ALARM_ERROR \<and> lock_free system0 \<and>
   ExtendedAlarmStatus (object system0) ! 0 = 1 \<and>
   ExtendedAlarmSubStatus (object system0) ! 0 = 2 \<and>
   fst (ExtendedAlarmsSet 2 0 SYSTEMALARMS_ALARM_ERROR 9 9 system0) = 0 \<and>
   ExtendedAlarmStatus
     (object (snd (ExtendedAlarmsSet 2 0 SYSTEMALARMS_ALARM_ERROR 9 9 system0))) ! 0 = 1 \<and>
   ExtendedAlarmSubStatus
     (object (snd (ExtendedAlarmsSet 2 0 SYSTEMALARMS_ALARM_ERROR 9 9 system0))) ! 0 = 2 \<and>
   write_backs (trace (snd (ExtendedAlarmsSet 2 0 SYSTEMALARMS_ALARM_ERROR 9 9 system0))) = 0"
  using ExtendedAlarmsSet_same_severity
          [of 0 2 system0 SYSTEMALARMS_ALARM_ERROR 9 9]
  by simp

text \<open>
  C2. Two consecutive calls \<open>AlarmsSet(id, S)\<close> do not always produce one
  write-back. When the stored severity is \<open>S\<close> before the first call there is
  none: alarm 1 of \<open>system0\<close> is at OK, and setting it to OK twice returns 0 twice
  and writes nothing back.
\<close>

theorem AlarmsSet_twice_no_write_back:
  "fst (AlarmsSet 4 1 SYSTEMALARMS_ALARM_OK system0) = 0 \<and>
   fst (AlarmsSet 4 1 SYSTEMALARMS_ALARM_OK
          (snd (AlarmsSet 4 1 SYSTEMALARMS_ALARM_OK system0))) = 0 \<and>
   write_backs (trace (snd (AlarmsSet 4 1 SYSTEMALARMS_ALARM_OK
          (snd (AlarmsSet 4 1 SYSTEMALARMS_ALARM_OK system0))))) \<noteq>
     write_backs (trace system0) + 1"
  by (simp add: AlarmsSet_def env_defs)

text \<open>
  C2, amended. For a valid identifier and with the lock obtained, \<open>AlarmsSet\<close>
  returns 0; if the stored severity equals the requested one the state keeps its record
  and its trace gains no write-back, otherwise the severity is stored and the whole
  record is written back exactly once. Of two consecutive calls with the same severity
  the second never writes back, so together they produce one write-back if the stored
  severity differed from the requested one before the first call and none otherwise.
\<close>

theorem AlarmsSet_write_backs:
  assumes "alarm < ALARM_NUMELEM"
    and "length (Alarm (object s)) = ALARM_NUMELEM"
    and "lock_free s"
    and "AlarmsSet ALARM_NUMELEM alarm severity s = (r1, s1)"
    and "AlarmsSet ALARM_NUMELEM alarm severity s1 = (r2, s2)"
  shows "r1 = 0 \<and> r2 = 0 \<and>
         (Alarm (object s) ! alarm = severity \<longrightarrow>
            s1 = s\<lparr>trace := trace s @ [TakeRecursive True, ObjGet, GiveRecursive]\<rparr> \<and>
            write_backs (trace s1) = write_backs (trace s)) \<and>
         (Alarm (object s) ! alarm \<noteq> severity \<longrightarrow>
            object s1 = (object s)\<lparr>Alarm := (Alarm (object s))[alarm := severity]\<rparr> \<and>
            trace s1 = trace s @ [TakeRecursive True, ObjGet, ObjSet (object s1), GiveRecursive] \<and>
            write_backs (trace s1) = write_backs (trace s) + 1) \<and>
         object s2 = object s1 \<and>
         write_backs (trace s2) = write_backs (trace s1) \<and>
         write_backs (trace s2) =
           write_backs (trace s) + (if Alarm (object s) ! alarm = severity then 0 else 1)"
proof (cases "Alarm (object s) ! alarm = severity")
  case True
  with assms have s1: "s1 = s\<lparr>trace := trace s @ [TakeRecursive True, ObjGet, GiveRecursive]\<rparr>"
    and r1: "r1 = 0"
    by (simp_all add: AlarmsSet_eq)
  from s1 True assms(3) have "lock_free s1" "Alarm (object s1) ! alarm = severity"
    by simp_all
  with assms(1,5) have "r2 = 0"
    "s2 = s1\<lparr>trace := trace s1 @ [TakeRecursive True, ObjGet, GiveRecursive]\<rparr>"
    by (simp_all add: AlarmsSet_eq)
  with s1 r1 True show ?thesis by simp
next
  case False
  with assms have s1: "s1 = s\<lparr>object := (object s)\<lparr>Alarm := (Alarm (object s))[alarm := severity]\<rparr>,
           trace := trace s @
             [TakeRecursive True, ObjGet,
              ObjSet ((object s)\<lparr>Alarm := (Alarm (object s))[alarm := severity]\<rparr>),
              GiveRecursive]\<rparr>"
    and r1: "r1 = 0"
    by (simp_all add: AlarmsSet_neq)
  from s1 assms(1,2,3) have "lock_free s1" "Alarm (object s1) ! alarm = severity"
    by simp_all
  with assms(1,5) have "r2 = 0"
    "s2 = s1\<lparr>trace := trace s1 @ [TakeRecursive True, ObjGet, GiveRecursive]\<rparr>"
    by (simp_all add: AlarmsSet_eq)
  with s1 r1 False show ?thesis by simp
qed

theorem AlarmsSet_write_backs_witness:
  "(1::nat) < 4 \<and> length (Alarm (object system0)) = 4 \<and> lock_free system0 \<and>
   Alarm (object system0) ! 1 \<noteq> SYSTEMALARMS_ALARM_WARNING \<and>
   fst (AlarmsSet 4 1 SYSTEMALARMS_ALARM_WARNING system0) = 0 \<and>
   fst (AlarmsSet 4 1 SYSTEMALARMS_ALARM_WARNING
          (snd (AlarmsSet 4 1 SYSTEMALARMS_ALARM_WARNING system0))) = 0 \<and>
   write_backs (trace (snd (AlarmsSet 4 1 SYSTEMALARMS_ALARM_WARNING system0))) = 1 \<and>
   write_backs (trace (snd (AlarmsSet 4 1 SYSTEMALARMS_ALARM_WARNING
          (snd (AlarmsSet 4 1 SYSTEMALARMS_ALARM_WARNING system0))))) = 1"
  using AlarmsSet_write_backs
          [of 1 4 system0 SYSTEMALARMS_ALARM_WARNING
              "fst (AlarmsSet 4 1 SYSTEMALARMS_ALARM_WARNING system0)"
              "snd (AlarmsSet 4 1 SYSTEMALARMS_ALARM_WARNING system0)"
              "fst (AlarmsSet 4 1 SYSTEMALARMS_ALARM_WARNING
                 (snd (AlarmsSet 4 1 SYSTEMALARMS_ALARM_WARNING system0)))"
              "snd (AlarmsSet 4 1 SYSTEMALARMS_ALARM_WARNING
                 (snd (AlarmsSet 4 1 SYSTEMALARMS_ALARM_WARNING system0)))"]
  by simp

text \<open>
  C3. \<open>AlarmsClear\<close> is \<open>ExtendedAlarmsSet(alarm, OK, 0, 0)\<close> for an identifier
  below M and \<open>AlarmsSet(alarm, OK)\<close> otherwise, result and state alike. Hence, on an
  extended alarm of a well-formed record whose severity is not OK, a clear that obtains
  the lock returns 0 and leaves severity OK and status and sub-status 0; on an extended
  alarm already at OK it leaves the record, status and sub-status included, as it was.
\<close>

theorem AlarmsClear_routes:
  "(alarm < EXTENDEDALARMSTATUS_NUMELEM \<longrightarrow>
      AlarmsClear ALARM_NUMELEM EXTENDEDALARMSTATUS_NUMELEM alarm s =
        ExtendedAlarmsSet EXTENDEDALARMSTATUS_NUMELEM alarm SYSTEMALARMS_ALARM_OK 0 0 s) \<and>
   (EXTENDEDALARMSTATUS_NUMELEM \<le> alarm \<longrightarrow>
      AlarmsClear ALARM_NUMELEM EXTENDEDALARMSTATUS_NUMELEM alarm s =
        AlarmsSet ALARM_NUMELEM alarm SYSTEMALARMS_ALARM_OK s) \<and>
   (alarm < EXTENDEDALARMSTATUS_NUMELEM \<and>
    wellformed ALARM_NUMELEM EXTENDEDALARMSTATUS_NUMELEM (object s) \<and> lock_free s \<and>
    Alarm (object s) ! alarm \<noteq> SYSTEMALARMS_ALARM_OK \<longrightarrow>
      fst (AlarmsClear ALARM_NUMELEM EXTENDEDALARMSTATUS_NUMELEM alarm s) = 0 \<and>
      Alarm (object (snd (AlarmsClear ALARM_NUMELEM EXTENDEDALARMSTATUS_NUMELEM alarm s)))
        ! alarm = SYSTEMALARMS_ALARM_OK \<and>
      ExtendedAlarmStatus
        (object (snd (AlarmsClear ALARM_NUMELEM EXTENDEDALARMSTATUS_NUMELEM alarm s)))
        ! alarm = 0 \<and>
      ExtendedAlarmSubStatus
        (object (snd (AlarmsClear ALARM_NUMELEM EXTENDEDALARMSTATUS_NUMELEM alarm s)))
        ! alarm = 0) \<and>
   (alarm < EXTENDEDALARMSTATUS_NUMELEM \<and>
    Alarm (object s) ! alarm = SYSTEMALARMS_ALARM_OK \<longrightarrow>
      object (snd (AlarmsClear ALARM_NUMELEM EXTENDEDALARMSTATUS_NUMELEM alarm s)) = object s)"
proof (intro conjI impI)
  assume "alarm < EXTENDEDALARMSTATUS_NUMELEM"
  then show "AlarmsClear ALARM_NUMELEM EXTENDEDALARMSTATUS_NUMELEM alarm s =
        ExtendedAlarmsSet EXTENDEDALARMSTATUS_NUMELEM alarm SYSTEMALARMS_ALARM_OK 0 0 s"
    by (simp add: AlarmsClear_def)
next
  assume "EXTENDEDALARMSTATUS_NUMELEM \<le> alarm"
  then show "AlarmsClear ALARM_NUMELEM EXTENDEDALARMSTATUS_NUMELEM alarm s =
        AlarmsSet ALARM_NUMELEM alarm SYSTEMALARMS_ALARM_OK s"
    by (simp add: AlarmsClear_def)
next
  assume a: "alarm < EXTENDEDALARMSTATUS_NUMELEM \<and>
    wellformed ALARM_NUMELEM EXTENDEDALARMSTATUS_NUMELEM (object s) \<and> lock_free s \<and>
    Alarm (object s) ! alarm \<noteq> SYSTEMALARMS_ALARM_OK"
  then have eq: "AlarmsClear ALARM_NUMELEM EXTENDEDALARMSTATUS_NUMELEM alarm s =
      ExtendedAlarmsSet EXTENDEDALARMSTATUS_NUMELEM alarm SYSTEMALARMS_ALARM_OK 0 0 s"
    by (simp add: AlarmsClear_def)
  from a have len: "alarm < length (Alarm (object s))"
    "alarm < length (ExtendedAlarmStatus (object s))"
    "alarm < length (ExtendedAlarmSubStatus (object s))"
    by (simp_all add: wellformed_def)
  from a show "fst (AlarmsClear ALARM_NUMELEM EXTENDEDALARMSTATUS_NUMELEM alarm s) = 0"
    by (simp add: eq ExtendedAlarmsSet_neq)
  from a len show
    "Alarm (object (snd (AlarmsClear ALARM_NUMELEM EXTENDEDALARMSTATUS_NUMELEM alarm s)))
        ! alarm = SYSTEMALARMS_ALARM_OK"
    by (simp add: eq ExtendedAlarmsSet_neq)
  from a len show
    "ExtendedAlarmStatus
        (object (snd (AlarmsClear ALARM_NUMELEM EXTENDEDALARMSTATUS_NUMELEM alarm s)))
        ! alarm = 0"
    by (simp add: eq ExtendedAlarmsSet_neq)
  from a len show
    "ExtendedAlarmSubStatus
        (object (snd (AlarmsClear ALARM_NUMELEM EXTENDEDALARMSTATUS_NUMELEM alarm s)))
        ! alarm = 0"
    by (simp add: eq ExtendedAlarmsSet_neq)
next
  assume a: "alarm < EXTENDEDALARMSTATUS_NUMELEM \<and>
    Alarm (object s) ! alarm = SYSTEMALARMS_ALARM_OK"
  show "object (snd (AlarmsClear ALARM_NUMELEM EXTENDEDALARMSTATUS_NUMELEM alarm s)) = object s"
  proof (cases "lock_free s")
    case True
    with a show ?thesis by (simp add: AlarmsClear_def ExtendedAlarmsSet_eq)
  next
    case False
    with a show ?thesis by (simp add: AlarmsClear_def ExtendedAlarmsSet_lock_failed)
  qed
qed

theorem AlarmsClear_routes_witness:
  "AlarmsClear 4 2 0 system0 = ExtendedAlarmsSet 2 0 SYSTEMALARMS_ALARM_OK 0 0 system0 \<and>
   AlarmsClear 4 2 3 system0 = AlarmsSet 4 3 SYSTEMALARMS_ALARM_OK system0 \<and>
   Alarm (object system0) ! 0 = SYSTEMALARMS_ALARM_ERROR \<and>
   ExtendedAlarmStatus (object system0) ! 0 = 1 \<and>
   ExtendedAlarmSubStatus (object system0) ! 0 = 2 \<and>
   fst (AlarmsClear 4 2 0 system0) = 0 \<and>
   Alarm (object (snd (AlarmsClear 4 2 0 system0))) ! 0 = SYSTEMALARMS_ALARM_OK \<and>
   ExtendedAlarmStatus (object (snd (AlarmsClear 4 2 0 system0))) ! 0 = 0 \<and>
   ExtendedAlarmSubStatus (object (snd (AlarmsClear 4 2 0 system0))) ! 0 = 0 \<and>
   Alarm (object system0) ! 1 = SYSTEMALARMS_ALARM_OK \<and>
   object (snd (AlarmsClear 4 2 1 system0)) = object system0"
proof -
  have pre: "(0::nat) < 2" "(2::nat) \<le> 3" "(1::nat) < 2" "lock_free system0"
    "wellformed 4 2 (object system0)"
    "Alarm (object system0) ! 0 \<noteq> SYSTEMALARMS_ALARM_OK"
    by (simp_all add: wellformed_table0)
  have before: "Alarm (object system0) ! 0 = SYSTEMALARMS_ALARM_ERROR"
    "ExtendedAlarmStatus (object system0) ! 0 = 1"
    "ExtendedAlarmSubStatus (object system0) ! 0 = 2"
    "Alarm (object system0) ! 1 = SYSTEMALARMS_ALARM_OK"
    by simp_all
  show ?thesis
    using AlarmsClear_routes [of 0 2 4 system0] AlarmsClear_routes [of 3 2 4 system0]
      AlarmsClear_routes [of 1 2 4 system0] pre before
    by blast
qed

subsection \<open>The scan\<close>

lemma hasSeverity_scan_iff:
  "hasSeverity_scan ALARM_NUMELEM alarms severity n \<longleftrightarrow>
     (\<exists>k. n \<le> k \<and> k < ALARM_NUMELEM \<and>
          options_value severity \<le> options_value (Alarm alarms ! k))"
proof (induction ALARM_NUMELEM alarms severity n rule: hasSeverity_scan.induct)
  case (1 ALARM_NUMELEM alarms severity n)
  show ?case
  proof (cases "n < ALARM_NUMELEM")
    case False
    then show ?thesis
      by (subst hasSeverity_scan.simps) auto
  next
    case inside: True
    show ?thesis
    proof (cases "options_value severity \<le> options_value (Alarm alarms ! n)")
      case True
      with inside show ?thesis
        by (subst hasSeverity_scan.simps) auto
    next
      case False
      with inside have
        "hasSeverity_scan ALARM_NUMELEM alarms severity n =
           hasSeverity_scan ALARM_NUMELEM alarms severity (Suc n)"
        by (subst hasSeverity_scan.simps) simp
      also from inside False have "\<dots> \<longleftrightarrow>
          (\<exists>k. Suc n \<le> k \<and> k < ALARM_NUMELEM \<and>
             options_value severity \<le> options_value (Alarm alarms ! k))"
        by (simp add: "1.IH")
      also from False have "\<dots> \<longleftrightarrow>
          (\<exists>k. n \<le> k \<and> k < ALARM_NUMELEM \<and>
             options_value severity \<le> options_value (Alarm alarms ! k))"
        by (metis Suc_leD Suc_leI le_neq_implies_less)
      finally show ?thesis .
    qed
  qed
qed

lemma hasSeverity_result:
  "hasSeverity ALARM_NUMELEM severity s =
     (if hasSeverity_scan ALARM_NUMELEM (object s) severity 0 then 1 else 0,
      s\<lparr>lock_depth := (if lock_free s then lock_depth s else lock_depth s - 1),
        trace := trace s @ [TakeRecursive (lock_free s), ObjGet, GiveRecursive]\<rparr>)"
  by (simp add: hasSeverity_def env_defs)

lemma hasSeverity_fst:
  "fst (hasSeverity ALARM_NUMELEM severity s) =
     (if \<exists>n<ALARM_NUMELEM. options_value severity \<le> options_value (Alarm (object s) ! n)
      then 1 else 0)"
  by (simp add: hasSeverity_result hasSeverity_scan_iff)

lemma AlarmsSet_success_stored:
  assumes "AlarmsSet ALARM_NUMELEM alarm severity s = (0, s')"
    and "length (Alarm (object s)) = ALARM_NUMELEM"
  shows "alarm < ALARM_NUMELEM \<and> lock_free s \<and> Alarm (object s') ! alarm = severity \<and>
         length (Alarm (object s')) = ALARM_NUMELEM"
proof -
  from assms(1) have valid: "alarm < ALARM_NUMELEM"
    by (cases "alarm < ALARM_NUMELEM") (simp_all add: AlarmsSet_out_of_range)
  with assms(1) have free: "lock_free s"
    by (cases "lock_free s") (simp_all add: AlarmsSet_lock_failed)
  show ?thesis
  proof (cases "Alarm (object s) ! alarm = severity")
    case True
    with valid free assms show ?thesis
      by (auto simp: AlarmsSet_eq)
  next
    case False
    with valid free assms show ?thesis
      by (auto simp: AlarmsSet_neq)
  qed
qed

lemma system_ok_simps [simp]:
  "Alarm (object system_ok) =
     [SYSTEMALARMS_ALARM_OK, SYSTEMALARMS_ALARM_OK, SYSTEMALARMS_ALARM_OK, SYSTEMALARMS_ALARM_OK]"
  "lock_free system_ok" "lock_depth system_ok = 0" "trace system_ok = []"
  by (simp_all add: system_ok_def table_ok_def)

text \<open>
  C4. \<open>hasSeverity\<close> returns 1 exactly when some entry among the identifiers below
  N has a severity of at least the threshold, in the order of the enumeration, and 0
  exactly when none has. \<open>AlarmsHasWarnings\<close>, \<open>AlarmsHasErrors\<close> and
  \<open>AlarmsHasCritical\<close> are \<open>hasSeverity\<close> at the thresholds Warning, Error and
  Critical. On a record whose alarms are all at OK \<open>AlarmsHasWarnings\<close> returns 0,
  and after a call of \<open>AlarmsSet\<close> that returned 0 with a severity of Warning or
  higher it returns 1.
\<close>

theorem hasSeverity_threshold:
  "(fst (hasSeverity ALARM_NUMELEM t s) = 1 \<longleftrightarrow>
      (\<exists>n<ALARM_NUMELEM. options_value t \<le> options_value (Alarm (object s) ! n))) \<and>
   (fst (hasSeverity ALARM_NUMELEM t s) = 0 \<longleftrightarrow>
      \<not> (\<exists>n<ALARM_NUMELEM. options_value t \<le> options_value (Alarm (object s) ! n))) \<and>
   AlarmsHasWarnings ALARM_NUMELEM s = hasSeverity ALARM_NUMELEM SYSTEMALARMS_ALARM_WARNING s \<and>
   AlarmsHasErrors ALARM_NUMELEM s = hasSeverity ALARM_NUMELEM SYSTEMALARMS_ALARM_ERROR s \<and>
   AlarmsHasCritical ALARM_NUMELEM s = hasSeverity ALARM_NUMELEM SYSTEMALARMS_ALARM_CRITICAL s \<and>
   ((\<forall>n<ALARM_NUMELEM. Alarm (object s) ! n = SYSTEMALARMS_ALARM_OK) \<longrightarrow>
      fst (AlarmsHasWarnings ALARM_NUMELEM s) = 0) \<and>
   (length (Alarm (object s)) = ALARM_NUMELEM \<and>
    options_value SYSTEMALARMS_ALARM_WARNING \<le> options_value severity \<and>
    AlarmsSet ALARM_NUMELEM alarm severity s = (0, s') \<longrightarrow>
      fst (AlarmsHasWarnings ALARM_NUMELEM s') = 1)"
proof (intro conjI impI)
  show "fst (hasSeverity ALARM_NUMELEM t s) = 1 \<longleftrightarrow>
      (\<exists>n<ALARM_NUMELEM. options_value t \<le> options_value (Alarm (object s) ! n))"
    by (simp add: hasSeverity_fst)
  show "fst (hasSeverity ALARM_NUMELEM t s) = 0 \<longleftrightarrow>
      \<not> (\<exists>n<ALARM_NUMELEM. options_value t \<le> options_value (Alarm (object s) ! n))"
    by (simp add: hasSeverity_fst)
  show "AlarmsHasWarnings ALARM_NUMELEM s =
      hasSeverity ALARM_NUMELEM SYSTEMALARMS_ALARM_WARNING s"
    by (simp add: AlarmsHasWarnings_def)
  show "AlarmsHasErrors ALARM_NUMELEM s = hasSeverity ALARM_NUMELEM SYSTEMALARMS_ALARM_ERROR s"
    by (simp add: AlarmsHasErrors_def)
  show "AlarmsHasCritical ALARM_NUMELEM s =
      hasSeverity ALARM_NUMELEM SYSTEMALARMS_ALARM_CRITICAL s"
    by (simp add: AlarmsHasCritical_def)
next
  assume "\<forall>n<ALARM_NUMELEM. Alarm (object s) ! n = SYSTEMALARMS_ALARM_OK"
  then show "fst (AlarmsHasWarnings ALARM_NUMELEM s) = 0"
    by (simp add: AlarmsHasWarnings_def hasSeverity_fst)
next
  assume a: "length (Alarm (object s)) = ALARM_NUMELEM \<and>
    options_value SYSTEMALARMS_ALARM_WARNING \<le> options_value severity \<and>
    AlarmsSet ALARM_NUMELEM alarm severity s = (0, s')"
  then have "alarm < ALARM_NUMELEM" "Alarm (object s') ! alarm = severity"
    using AlarmsSet_success_stored [of ALARM_NUMELEM alarm severity s s'] by simp_all
  with a have
    "\<exists>n<ALARM_NUMELEM.
       options_value SYSTEMALARMS_ALARM_WARNING \<le> options_value (Alarm (object s') ! n)"
    by blast
  then show "fst (AlarmsHasWarnings ALARM_NUMELEM s') = 1"
    by (simp only: AlarmsHasWarnings_def hasSeverity_fst if_True)
qed

lemma AlarmsSet_system_ok:
  "AlarmsSet 4 2 SYSTEMALARMS_ALARM_ERROR system_ok =
     (0, snd (AlarmsSet 4 2 SYSTEMALARMS_ALARM_ERROR system_ok))"
  by (simp add: AlarmsSet_neq)

theorem hasSeverity_threshold_witness:
  "Alarm (object system_ok) =
     [SYSTEMALARMS_ALARM_OK, SYSTEMALARMS_ALARM_OK, SYSTEMALARMS_ALARM_OK,
      SYSTEMALARMS_ALARM_OK] \<and>
   fst (AlarmsHasWarnings 4 system_ok) = 0 \<and>
   length (Alarm (object system_ok)) = 4 \<and>
   options_value SYSTEMALARMS_ALARM_WARNING \<le> options_value SYSTEMALARMS_ALARM_ERROR \<and>
   fst (AlarmsSet 4 2 SYSTEMALARMS_ALARM_ERROR system_ok) = 0 \<and>
   fst (AlarmsHasWarnings 4 (snd (AlarmsSet 4 2 SYSTEMALARMS_ALARM_ERROR system_ok))) = 1"
proof -
  have all_ok: "\<forall>n<4. Alarm (object system_ok) ! n = SYSTEMALARMS_ALARM_OK"
    by (simp add: nth_Cons' )
  have pre: "length (Alarm (object system_ok)) = 4"
    "options_value SYSTEMALARMS_ALARM_WARNING \<le> options_value SYSTEMALARMS_ALARM_ERROR"
    by simp_all
  have ret: "fst (AlarmsSet 4 2 SYSTEMALARMS_ALARM_ERROR system_ok) = 0"
    by (simp add: AlarmsSet_neq)
  show ?thesis
    using hasSeverity_threshold
            [of 4 SYSTEMALARMS_ALARM_WARNING system_ok SYSTEMALARMS_ALARM_ERROR 2
                "snd (AlarmsSet 4 2 SYSTEMALARMS_ALARM_ERROR system_ok)"]
      all_ok pre ret AlarmsSet_system_ok system_ok_simps(1)
    by blast
qed

text \<open>
  C5. \<open>AlarmsSet\<close> returns -1 for every identifier from N on and
  \<open>ExtendedAlarmsSet\<close> for every identifier from M on, both with the state
  untouched. Whenever one of them returns something other than 0, the result is -1, the
  identifier is out of range or the lock was not obtained, the stored record is as
  before and the trace has no new write-back; after a failed take the trace gains that
  take only.
\<close>

theorem set_failure_leaves_table:
  "(ALARM_NUMELEM \<le> alarm \<longrightarrow> AlarmsSet ALARM_NUMELEM alarm severity s = (- 1, s)) \<and>
   (EXTENDEDALARMSTATUS_NUMELEM \<le> alarm' \<longrightarrow>
      ExtendedAlarmsSet EXTENDEDALARMSTATUS_NUMELEM alarm' severity status subStatus s =
        (- 1, s)) \<and>
   (fst (AlarmsSet ALARM_NUMELEM alarm severity s) \<noteq> 0 \<longrightarrow>
      fst (AlarmsSet ALARM_NUMELEM alarm severity s) = - 1 \<and>
      object (snd (AlarmsSet ALARM_NUMELEM alarm severity s)) = object s \<and>
      write_backs (trace (snd (AlarmsSet ALARM_NUMELEM alarm severity s))) =
        write_backs (trace s) \<and>
      (ALARM_NUMELEM \<le> alarm \<or> \<not> lock_free s)) \<and>
   (fst (ExtendedAlarmsSet EXTENDEDALARMSTATUS_NUMELEM alarm' severity status subStatus s) \<noteq> 0
      \<longrightarrow>
      fst (ExtendedAlarmsSet EXTENDEDALARMSTATUS_NUMELEM alarm' severity status subStatus s)
        = - 1 \<and>
      object (snd (ExtendedAlarmsSet EXTENDEDALARMSTATUS_NUMELEM alarm' severity status
        subStatus s)) = object s \<and>
      write_backs (trace (snd (ExtendedAlarmsSet EXTENDEDALARMSTATUS_NUMELEM alarm' severity
        status subStatus s))) = write_backs (trace s) \<and>
      (EXTENDEDALARMSTATUS_NUMELEM \<le> alarm' \<or> \<not> lock_free s)) \<and>
   (alarm < ALARM_NUMELEM \<and> \<not> lock_free s \<longrightarrow>
      AlarmsSet ALARM_NUMELEM alarm severity s =
        (- 1, s\<lparr>trace := trace s @ [TakeRecursive False]\<rparr>)) \<and>
   (alarm' < EXTENDEDALARMSTATUS_NUMELEM \<and> \<not> lock_free s \<longrightarrow>
      ExtendedAlarmsSet EXTENDEDALARMSTATUS_NUMELEM alarm' severity status subStatus s =
        (- 1, s\<lparr>trace := trace s @ [TakeRecursive False]\<rparr>))"
proof -
  have set_cases:
    "ALARM_NUMELEM \<le> alarm \<or> (alarm < ALARM_NUMELEM \<and> \<not> lock_free s) \<or>
     (alarm < ALARM_NUMELEM \<and> lock_free s \<and> Alarm (object s) ! alarm = severity) \<or>
     (alarm < ALARM_NUMELEM \<and> lock_free s \<and> Alarm (object s) ! alarm \<noteq> severity)"
    by auto
  have ext_cases:
    "EXTENDEDALARMSTATUS_NUMELEM \<le> alarm' \<or>
     (alarm' < EXTENDEDALARMSTATUS_NUMELEM \<and> \<not> lock_free s) \<or>
     (alarm' < EXTENDEDALARMSTATUS_NUMELEM \<and> lock_free s \<and>
        Alarm (object s) ! alarm' = severity) \<or>
     (alarm' < EXTENDEDALARMSTATUS_NUMELEM \<and> lock_free s \<and>
        Alarm (object s) ! alarm' \<noteq> severity)"
    by auto
  have a: "fst (AlarmsSet ALARM_NUMELEM alarm severity s) \<noteq> 0 \<longrightarrow>
      fst (AlarmsSet ALARM_NUMELEM alarm severity s) = - 1 \<and>
      object (snd (AlarmsSet ALARM_NUMELEM alarm severity s)) = object s \<and>
      write_backs (trace (snd (AlarmsSet ALARM_NUMELEM alarm severity s))) =
        write_backs (trace s) \<and>
      (ALARM_NUMELEM \<le> alarm \<or> \<not> lock_free s)"
    using set_cases
    by (elim disjE conjE)
       (simp_all add: AlarmsSet_out_of_range AlarmsSet_lock_failed AlarmsSet_eq AlarmsSet_neq)
  have b: "fst (ExtendedAlarmsSet EXTENDEDALARMSTATUS_NUMELEM alarm' severity status subStatus s)
        \<noteq> 0 \<longrightarrow>
      fst (ExtendedAlarmsSet EXTENDEDALARMSTATUS_NUMELEM alarm' severity status subStatus s)
        = - 1 \<and>
      object (snd (ExtendedAlarmsSet EXTENDEDALARMSTATUS_NUMELEM alarm' severity status
        subStatus s)) = object s \<and>
      write_backs (trace (snd (ExtendedAlarmsSet EXTENDEDALARMSTATUS_NUMELEM alarm' severity
        status subStatus s))) = write_backs (trace s) \<and>
      (EXTENDEDALARMSTATUS_NUMELEM \<le> alarm' \<or> \<not> lock_free s)"
    using ext_cases
    by (elim disjE conjE)
       (simp_all add: ExtendedAlarmsSet_out_of_range ExtendedAlarmsSet_lock_failed
          ExtendedAlarmsSet_eq ExtendedAlarmsSet_neq)
  have c: "ALARM_NUMELEM \<le> alarm \<longrightarrow> AlarmsSet ALARM_NUMELEM alarm severity s = (- 1, s)"
    by (simp add: AlarmsSet_out_of_range)
  have d: "EXTENDEDALARMSTATUS_NUMELEM \<le> alarm' \<longrightarrow>
      ExtendedAlarmsSet EXTENDEDALARMSTATUS_NUMELEM alarm' severity status subStatus s =
        (- 1, s)"
    by (simp add: ExtendedAlarmsSet_out_of_range)
  have e: "alarm < ALARM_NUMELEM \<and> \<not> lock_free s \<longrightarrow>
      AlarmsSet ALARM_NUMELEM alarm severity s =
        (- 1, s\<lparr>trace := trace s @ [TakeRecursive False]\<rparr>)"
    by (simp add: AlarmsSet_lock_failed)
  have f: "alarm' < EXTENDEDALARMSTATUS_NUMELEM \<and> \<not> lock_free s \<longrightarrow>
      ExtendedAlarmsSet EXTENDEDALARMSTATUS_NUMELEM alarm' severity status subStatus s =
        (- 1, s\<lparr>trace := trace s @ [TakeRecursive False]\<rparr>)"
    by (simp add: ExtendedAlarmsSet_lock_failed)
  from c d a b e f show ?thesis
    by (intro conjI)
qed

lemma system_busy_simps [simp]:
  "object system_busy = table0" "\<not> lock_free system_busy" "lock_depth system_busy = 0"
  "trace system_busy = []"
  by (simp_all add: system_busy_def)

theorem set_failure_leaves_table_witness:
  "AlarmsSet 4 4 SYSTEMALARMS_ALARM_CRITICAL system0 = (- 1, system0) \<and>
   ExtendedAlarmsSet 2 2 SYSTEMALARMS_ALARM_CRITICAL 9 9 system0 = (- 1, system0) \<and>
   fst (AlarmsSet 4 3 SYSTEMALARMS_ALARM_CRITICAL system_busy) = - 1 \<and>
   object (snd (AlarmsSet 4 3 SYSTEMALARMS_ALARM_CRITICAL system_busy)) = table0 \<and>
   write_backs (trace (snd (AlarmsSet 4 3 SYSTEMALARMS_ALARM_CRITICAL system_busy))) = 0 \<and>
   fst (ExtendedAlarmsSet 2 1 SYSTEMALARMS_ALARM_CRITICAL 9 9 system_busy) = - 1 \<and>
   object (snd (ExtendedAlarmsSet 2 1 SYSTEMALARMS_ALARM_CRITICAL 9 9 system_busy)) = table0 \<and>
   write_backs (trace (snd (ExtendedAlarmsSet 2 1 SYSTEMALARMS_ALARM_CRITICAL 9 9 system_busy)))
     = 0"
proof -
  have pre: "(4::nat) \<le> 4" "(2::nat) \<le> 2" "(3::nat) < 4" "(1::nat) < 2"
    "\<not> lock_free system_busy" "(- 1::int) \<noteq> 0"
    by simp_all
  have busy: "object system_busy = table0" "write_backs (trace system_busy) = 0"
    by simp_all
  note inv = set_failure_leaves_table [of 4 4 SYSTEMALARMS_ALARM_CRITICAL system0 2 2 9 9]
  note fail = set_failure_leaves_table [of 4 3 SYSTEMALARMS_ALARM_CRITICAL system_busy 2 1 9 9]
  from fail pre have r:
    "AlarmsSet 4 3 SYSTEMALARMS_ALARM_CRITICAL system_busy =
       (- 1, system_busy\<lparr>trace := trace system_busy @ [TakeRecursive False]\<rparr>)"
    "ExtendedAlarmsSet 2 1 SYSTEMALARMS_ALARM_CRITICAL 9 9 system_busy =
       (- 1, system_busy\<lparr>trace := trace system_busy @ [TakeRecursive False]\<rparr>)"
    by blast+
  from inv pre have i:
    "AlarmsSet 4 4 SYSTEMALARMS_ALARM_CRITICAL system0 = (- 1, system0)"
    "ExtendedAlarmsSet 2 2 SYSTEMALARMS_ALARM_CRITICAL 9 9 system0 = (- 1, system0)"
    by blast+
  from i r show ?thesis
    by simp
qed

text \<open>
  C6. For a valid identifier of a record with N alarms, \<open>AlarmsGet\<close> called on the
  state that a successful \<open>AlarmsSet(alarm, severity)\<close> returned gives that severity.
\<close>

theorem AlarmsGet_after_AlarmsSet:
  assumes "alarm < ALARM_NUMELEM"
    and "length (Alarm (object s)) = ALARM_NUMELEM"
    and "AlarmsSet ALARM_NUMELEM alarm severity s = (0, s')"
  shows "fst (AlarmsGet ALARM_NUMELEM alarm s') = severity"
  using assms AlarmsSet_success_stored [of ALARM_NUMELEM alarm severity s s']
  by (simp add: AlarmsGet_def SystemAlarmsGet_def)

theorem AlarmsGet_after_AlarmsSet_witness:
  "(2::nat) < 4 \<and> length (Alarm (object system_ok)) = 4 \<and>
   AlarmsSet 4 2 SYSTEMALARMS_ALARM_ERROR system_ok =
     (0, snd (AlarmsSet 4 2 SYSTEMALARMS_ALARM_ERROR system_ok)) \<and>
   fst (AlarmsGet 4 2 (snd (AlarmsSet 4 2 SYSTEMALARMS_ALARM_ERROR system_ok))) =
     SYSTEMALARMS_ALARM_ERROR"
proof -
  have pre: "(2::nat) < 4" "length (Alarm (object system_ok)) = 4"
    by simp_all
  show ?thesis
    using AlarmsGet_after_AlarmsSet
            [of 2 4 system_ok SYSTEMALARMS_ALARM_ERROR
                "snd (AlarmsSet 4 2 SYSTEMALARMS_ALARM_ERROR system_ok)"]
      pre AlarmsSet_system_ok
    by blast
qed

subsection \<open>The record after a call\<close>

lemma AlarmsSet_object:
  "object (snd (AlarmsSet ALARM_NUMELEM alarm severity s)) = object s \<or>
   object (snd (AlarmsSet ALARM_NUMELEM alarm severity s)) =
     (object s)\<lparr>Alarm := (Alarm (object s))[alarm := severity]\<rparr>"
  by (simp add: AlarmsSet_def env_defs)

lemma ExtendedAlarmsSet_object:
  "object (snd (ExtendedAlarmsSet EXTENDEDALARMSTATUS_NUMELEM alarm severity status subStatus s))
     = object s \<or>
   alarm < EXTENDEDALARMSTATUS_NUMELEM \<and>
   object (snd (ExtendedAlarmsSet EXTENDEDALARMSTATUS_NUMELEM alarm severity status subStatus s))
     = (object s)
         \<lparr>ExtendedAlarmStatus := (ExtendedAlarmStatus (object s))[alarm := status],
          ExtendedAlarmSubStatus := (ExtendedAlarmSubStatus (object s))[alarm := subStatus],
          Alarm := (Alarm (object s))[alarm := severity]\<rparr>"
  by (simp add: ExtendedAlarmsSet_def env_defs)

lemma AlarmsSet_extended_fields:
  "ExtendedAlarmStatus (object (snd (AlarmsSet ALARM_NUMELEM alarm severity s))) =
     ExtendedAlarmStatus (object s) \<and>
   ExtendedAlarmSubStatus (object (snd (AlarmsSet ALARM_NUMELEM alarm severity s))) =
     ExtendedAlarmSubStatus (object s)"
  using AlarmsSet_object [of ALARM_NUMELEM alarm severity s] by auto

lemma AlarmsSet_others:
  "j \<noteq> alarm \<Longrightarrow>
   Alarm (object (snd (AlarmsSet ALARM_NUMELEM alarm severity s))) ! j = Alarm (object s) ! j"
  using AlarmsSet_object [of ALARM_NUMELEM alarm severity s] by auto

lemma AlarmsSet_length:
  "length (Alarm (object (snd (AlarmsSet ALARM_NUMELEM alarm severity s)))) =
     length (Alarm (object s))"
  using AlarmsSet_object [of ALARM_NUMELEM alarm severity s] by auto

lemma ExtendedAlarmsSet_others:
  "j \<noteq> alarm \<Longrightarrow>
   Alarm (object (snd (ExtendedAlarmsSet EXTENDEDALARMSTATUS_NUMELEM alarm severity status
     subStatus s))) ! j = Alarm (object s) ! j \<and>
   ExtendedAlarmStatus (object (snd (ExtendedAlarmsSet EXTENDEDALARMSTATUS_NUMELEM alarm severity
     status subStatus s))) ! j = ExtendedAlarmStatus (object s) ! j \<and>
   ExtendedAlarmSubStatus (object (snd (ExtendedAlarmsSet EXTENDEDALARMSTATUS_NUMELEM alarm
     severity status subStatus s))) ! j = ExtendedAlarmSubStatus (object s) ! j"
  using ExtendedAlarmsSet_object [of EXTENDEDALARMSTATUS_NUMELEM alarm severity status subStatus s]
  by auto

lemma ExtendedAlarmsSet_length:
  "length (Alarm (object (snd (ExtendedAlarmsSet EXTENDEDALARMSTATUS_NUMELEM alarm severity
     status subStatus s)))) = length (Alarm (object s)) \<and>
   length (ExtendedAlarmStatus (object (snd (ExtendedAlarmsSet EXTENDEDALARMSTATUS_NUMELEM alarm
     severity status subStatus s)))) = length (ExtendedAlarmStatus (object s)) \<and>
   length (ExtendedAlarmSubStatus (object (snd (ExtendedAlarmsSet EXTENDEDALARMSTATUS_NUMELEM
     alarm severity status subStatus s)))) = length (ExtendedAlarmSubStatus (object s))"
  using ExtendedAlarmsSet_object [of EXTENDEDALARMSTATUS_NUMELEM alarm severity status subStatus s]
  by auto

lemma ExtendedAlarmsSet_simple_fields:
  "drop EXTENDEDALARMSTATUS_NUMELEM
     (ExtendedAlarmStatus (object (snd (ExtendedAlarmsSet EXTENDEDALARMSTATUS_NUMELEM alarm
        severity status subStatus s)))) =
   drop EXTENDEDALARMSTATUS_NUMELEM (ExtendedAlarmStatus (object s)) \<and>
   drop EXTENDEDALARMSTATUS_NUMELEM
     (ExtendedAlarmSubStatus (object (snd (ExtendedAlarmsSet EXTENDEDALARMSTATUS_NUMELEM alarm
        severity status subStatus s)))) =
   drop EXTENDEDALARMSTATUS_NUMELEM (ExtendedAlarmSubStatus (object s))"
  using ExtendedAlarmsSet_object [of EXTENDEDALARMSTATUS_NUMELEM alarm severity status subStatus s]
  by auto

lemma AlarmsClear_simple_fields:
  "drop EXTENDEDALARMSTATUS_NUMELEM
     (ExtendedAlarmStatus (object (snd (AlarmsClear ALARM_NUMELEM EXTENDEDALARMSTATUS_NUMELEM
        alarm s)))) =
   drop EXTENDEDALARMSTATUS_NUMELEM (ExtendedAlarmStatus (object s)) \<and>
   drop EXTENDEDALARMSTATUS_NUMELEM
     (ExtendedAlarmSubStatus (object (snd (AlarmsClear ALARM_NUMELEM EXTENDEDALARMSTATUS_NUMELEM
        alarm s)))) =
   drop EXTENDEDALARMSTATUS_NUMELEM (ExtendedAlarmSubStatus (object s))"
  by (simp add: AlarmsClear_def ExtendedAlarmsSet_simple_fields AlarmsSet_extended_fields)

lemma AlarmsDefaultAll_from_extended_fields:
  "ExtendedAlarmStatus (object (AlarmsDefaultAll_from ALARM_NUMELEM ALARM_DEFAULT n s)) =
     ExtendedAlarmStatus (object s) \<and>
   ExtendedAlarmSubStatus (object (AlarmsDefaultAll_from ALARM_NUMELEM ALARM_DEFAULT n s)) =
     ExtendedAlarmSubStatus (object s)"
proof (induction ALARM_NUMELEM ALARM_DEFAULT n s rule: AlarmsDefaultAll_from.induct)
  case (1 ALARM_NUMELEM ALARM_DEFAULT n s)
  show ?case
  proof (cases "n < ALARM_NUMELEM")
    case True
    with "1.IH" show ?thesis
      by (subst (1 2) AlarmsDefaultAll_from.simps)
         (simp add: AlarmsDefault_def AlarmsSet_extended_fields)
  next
    case False
    then show ?thesis
      by (subst (1 2) AlarmsDefaultAll_from.simps) simp
  qed
qed

lemma AlarmsClearAll_from_simple_fields:
  "drop EXTENDEDALARMSTATUS_NUMELEM
     (ExtendedAlarmStatus (object (AlarmsClearAll_from ALARM_NUMELEM EXTENDEDALARMSTATUS_NUMELEM
        n s))) =
   drop EXTENDEDALARMSTATUS_NUMELEM (ExtendedAlarmStatus (object s)) \<and>
   drop EXTENDEDALARMSTATUS_NUMELEM
     (ExtendedAlarmSubStatus (object (AlarmsClearAll_from ALARM_NUMELEM
        EXTENDEDALARMSTATUS_NUMELEM n s))) =
   drop EXTENDEDALARMSTATUS_NUMELEM (ExtendedAlarmSubStatus (object s))"
proof (induction ALARM_NUMELEM EXTENDEDALARMSTATUS_NUMELEM n s
    rule: AlarmsClearAll_from.induct)
  case (1 ALARM_NUMELEM EXTENDEDALARMSTATUS_NUMELEM n s)
  show ?case
  proof (cases "n < ALARM_NUMELEM")
    case True
    with "1.IH" show ?thesis
      by (subst (1 2) AlarmsClearAll_from.simps) (simp add: AlarmsClear_simple_fields)
  next
    case False
    then show ?thesis
      by (subst (1 2) AlarmsClearAll_from.simps) simp
  qed
qed

text \<open>
  C7. A mutation edits one entry. \<open>AlarmsSet\<close> leaves the severity of every other
  identifier, the dimension of \<open>Alarm\<close> and the two arrays of extended fields as
  they were. \<open>ExtendedAlarmsSet\<close> leaves severity, status and sub-status of every
  other identifier and the dimensions of the three arrays as they were, and for an
  identifier from M on, a simple alarm, it leaves the whole record. The extended fields
  are not written for a simple alarm by any operation: \<open>AlarmsClear\<close> of a simple
  alarm, \<open>AlarmsDefault\<close> and \<open>AlarmsDefaultAll\<close> leave both arrays as they
  were, and \<open>AlarmsClearAll\<close> leaves their entries from M on.
\<close>

theorem mutation_edits_one_entry:
  "(\<forall>j. j \<noteq> alarm \<longrightarrow>
      Alarm (object (snd (AlarmsSet ALARM_NUMELEM alarm severity s))) ! j =
        Alarm (object s) ! j) \<and>
   length (Alarm (object (snd (AlarmsSet ALARM_NUMELEM alarm severity s)))) =
     length (Alarm (object s)) \<and>
   ExtendedAlarmStatus (object (snd (AlarmsSet ALARM_NUMELEM alarm severity s))) =
     ExtendedAlarmStatus (object s) \<and>
   ExtendedAlarmSubStatus (object (snd (AlarmsSet ALARM_NUMELEM alarm severity s))) =
     ExtendedAlarmSubStatus (object s) \<and>
   (\<forall>j. j \<noteq> alarm \<longrightarrow>
      Alarm (object (snd (ExtendedAlarmsSet EXTENDEDALARMSTATUS_NUMELEM alarm severity status
        subStatus s))) ! j = Alarm (object s) ! j \<and>
      ExtendedAlarmStatus (object (snd (ExtendedAlarmsSet EXTENDEDALARMSTATUS_NUMELEM alarm
        severity status subStatus s))) ! j = ExtendedAlarmStatus (object s) ! j \<and>
      ExtendedAlarmSubStatus (object (snd (ExtendedAlarmsSet EXTENDEDALARMSTATUS_NUMELEM alarm
        severity status subStatus s))) ! j = ExtendedAlarmSubStatus (object s) ! j) \<and>
   length (Alarm (object (snd (ExtendedAlarmsSet EXTENDEDALARMSTATUS_NUMELEM alarm severity
     status subStatus s)))) = length (Alarm (object s)) \<and>
   length (ExtendedAlarmStatus (object (snd (ExtendedAlarmsSet EXTENDEDALARMSTATUS_NUMELEM alarm
     severity status subStatus s)))) = length (ExtendedAlarmStatus (object s)) \<and>
   length (ExtendedAlarmSubStatus (object (snd (ExtendedAlarmsSet EXTENDEDALARMSTATUS_NUMELEM
     alarm severity status subStatus s)))) = length (ExtendedAlarmSubStatus (object s)) \<and>
   (EXTENDEDALARMSTATUS_NUMELEM \<le> alarm \<longrightarrow>
      object (snd (ExtendedAlarmsSet EXTENDEDALARMSTATUS_NUMELEM alarm severity status
        subStatus s)) = object s \<and>
      ExtendedAlarmStatus (object (snd (AlarmsClear ALARM_NUMELEM EXTENDEDALARMSTATUS_NUMELEM
        alarm s))) = ExtendedAlarmStatus (object s) \<and>
      ExtendedAlarmSubStatus (object (snd (AlarmsClear ALARM_NUMELEM EXTENDEDALARMSTATUS_NUMELEM
        alarm s))) = ExtendedAlarmSubStatus (object s)) \<and>
   ExtendedAlarmStatus (object (snd (AlarmsDefault ALARM_NUMELEM ALARM_DEFAULT alarm s))) =
     ExtendedAlarmStatus (object s) \<and>
   ExtendedAlarmSubStatus (object (snd (AlarmsDefault ALARM_NUMELEM ALARM_DEFAULT alarm s))) =
     ExtendedAlarmSubStatus (object s) \<and>
   ExtendedAlarmStatus (object (AlarmsDefaultAll ALARM_NUMELEM ALARM_DEFAULT s)) =
     ExtendedAlarmStatus (object s) \<and>
   ExtendedAlarmSubStatus (object (AlarmsDefaultAll ALARM_NUMELEM ALARM_DEFAULT s)) =
     ExtendedAlarmSubStatus (object s) \<and>
   drop EXTENDEDALARMSTATUS_NUMELEM
     (ExtendedAlarmStatus (object (AlarmsClearAll ALARM_NUMELEM EXTENDEDALARMSTATUS_NUMELEM s)))
     = drop EXTENDEDALARMSTATUS_NUMELEM (ExtendedAlarmStatus (object s)) \<and>
   drop EXTENDEDALARMSTATUS_NUMELEM
     (ExtendedAlarmSubStatus (object (AlarmsClearAll ALARM_NUMELEM EXTENDEDALARMSTATUS_NUMELEM
        s)))
     = drop EXTENDEDALARMSTATUS_NUMELEM (ExtendedAlarmSubStatus (object s))"
proof -
  have set_frame: "\<forall>j. j \<noteq> alarm \<longrightarrow>
      Alarm (object (snd (AlarmsSet ALARM_NUMELEM alarm severity s))) ! j =
        Alarm (object s) ! j"
    by (simp add: AlarmsSet_others)
  have ext_frame: "\<forall>j. j \<noteq> alarm \<longrightarrow>
      Alarm (object (snd (ExtendedAlarmsSet EXTENDEDALARMSTATUS_NUMELEM alarm severity status
        subStatus s))) ! j = Alarm (object s) ! j \<and>
      ExtendedAlarmStatus (object (snd (ExtendedAlarmsSet EXTENDEDALARMSTATUS_NUMELEM alarm
        severity status subStatus s))) ! j = ExtendedAlarmStatus (object s) ! j \<and>
      ExtendedAlarmSubStatus (object (snd (ExtendedAlarmsSet EXTENDEDALARMSTATUS_NUMELEM alarm
        severity status subStatus s))) ! j = ExtendedAlarmSubStatus (object s) ! j"
    by (simp add: ExtendedAlarmsSet_others)
  have simple: "EXTENDEDALARMSTATUS_NUMELEM \<le> alarm \<longrightarrow>
      object (snd (ExtendedAlarmsSet EXTENDEDALARMSTATUS_NUMELEM alarm severity status
        subStatus s)) = object s \<and>
      ExtendedAlarmStatus (object (snd (AlarmsClear ALARM_NUMELEM EXTENDEDALARMSTATUS_NUMELEM
        alarm s))) = ExtendedAlarmStatus (object s) \<and>
      ExtendedAlarmSubStatus (object (snd (AlarmsClear ALARM_NUMELEM EXTENDEDALARMSTATUS_NUMELEM
        alarm s))) = ExtendedAlarmSubStatus (object s)"
    by (simp add: ExtendedAlarmsSet_out_of_range AlarmsClear_def AlarmsSet_extended_fields)
  have default: "ExtendedAlarmStatus
       (object (snd (AlarmsDefault ALARM_NUMELEM ALARM_DEFAULT alarm s))) =
     ExtendedAlarmStatus (object s) \<and>
   ExtendedAlarmSubStatus (object (snd (AlarmsDefault ALARM_NUMELEM ALARM_DEFAULT alarm s))) =
     ExtendedAlarmSubStatus (object s)"
    by (simp add: AlarmsDefault_def AlarmsSet_extended_fields)
  have default_all: "ExtendedAlarmStatus (object (AlarmsDefaultAll ALARM_NUMELEM ALARM_DEFAULT s))
     = ExtendedAlarmStatus (object s) \<and>
   ExtendedAlarmSubStatus (object (AlarmsDefaultAll ALARM_NUMELEM ALARM_DEFAULT s)) =
     ExtendedAlarmSubStatus (object s)"
    by (simp add: AlarmsDefaultAll_def AlarmsDefaultAll_from_extended_fields)
  have clear_all: "drop EXTENDEDALARMSTATUS_NUMELEM
     (ExtendedAlarmStatus (object (AlarmsClearAll ALARM_NUMELEM EXTENDEDALARMSTATUS_NUMELEM s)))
     = drop EXTENDEDALARMSTATUS_NUMELEM (ExtendedAlarmStatus (object s)) \<and>
   drop EXTENDEDALARMSTATUS_NUMELEM
     (ExtendedAlarmSubStatus (object (AlarmsClearAll ALARM_NUMELEM EXTENDEDALARMSTATUS_NUMELEM
        s)))
     = drop EXTENDEDALARMSTATUS_NUMELEM (ExtendedAlarmSubStatus (object s))"
    by (simp add: AlarmsClearAll_def AlarmsClearAll_from_simple_fields)
  from set_frame AlarmsSet_length [of ALARM_NUMELEM alarm severity s]
    AlarmsSet_extended_fields [of ALARM_NUMELEM alarm severity s]
    ext_frame
    ExtendedAlarmsSet_length [of EXTENDEDALARMSTATUS_NUMELEM alarm severity status subStatus s]
    simple default default_all clear_all
  show ?thesis
    by (intro conjI) (erule conjunct1 conjunct2 | assumption | blast)+
qed

theorem mutation_edits_one_entry_witness:
  "Alarm (object (snd (AlarmsSet 4 3 SYSTEMALARMS_ALARM_CRITICAL system0))) ! 0 =
     SYSTEMALARMS_ALARM_ERROR \<and>
   ExtendedAlarmStatus (object (snd (AlarmsSet 4 3 SYSTEMALARMS_ALARM_CRITICAL system0))) =
     [1, 0] \<and>
   ExtendedAlarmSubStatus (object (snd (AlarmsSet 4 3 SYSTEMALARMS_ALARM_CRITICAL system0))) =
     [2, 0] \<and>
   object (snd (ExtendedAlarmsSet 2 3 SYSTEMALARMS_ALARM_CRITICAL 9 9 system0)) = table0 \<and>
   ExtendedAlarmStatus (object (snd (AlarmsClear 4 2 3 system0))) = [1, 0] \<and>
   ExtendedAlarmSubStatus (object (snd (AlarmsClear 4 2 3 system0))) = [2, 0] \<and>
   Alarm (object (snd (ExtendedAlarmsSet 2 1 SYSTEMALARMS_ALARM_WARNING 9 9 system0))) ! 0 =
     SYSTEMALARMS_ALARM_ERROR \<and>
   ExtendedAlarmStatus
     (object (snd (ExtendedAlarmsSet 2 1 SYSTEMALARMS_ALARM_WARNING 9 9 system0))) ! 0 = 1 \<and>
   ExtendedAlarmSubStatus
     (object (snd (ExtendedAlarmsSet 2 1 SYSTEMALARMS_ALARM_WARNING 9 9 system0))) ! 0 = 2"
proof -
  have pre: "(0::nat) \<noteq> 3" "(2::nat) \<le> 3" "(0::nat) \<noteq> 1"
    by simp_all
  have before: "Alarm (object system0) ! 0 = SYSTEMALARMS_ALARM_ERROR"
    "ExtendedAlarmStatus (object system0) = [1, 0]"
    "ExtendedAlarmSubStatus (object system0) = [2, 0]"
    "ExtendedAlarmStatus (object system0) ! 0 = 1"
    "ExtendedAlarmSubStatus (object system0) ! 0 = 2"
    "object system0 = table0"
    by simp_all
  note simple = mutation_edits_one_entry
    [of 3 4 SYSTEMALARMS_ALARM_CRITICAL system0 2 9 9 SYSTEMALARMS_ALARM_UNINITIALISED]
  note extended = mutation_edits_one_entry
    [of 1 4 SYSTEMALARMS_ALARM_WARNING system0 2 9 9 SYSTEMALARMS_ALARM_UNINITIALISED]
  from simple pre have a:
    "Alarm (object (snd (AlarmsSet 4 3 SYSTEMALARMS_ALARM_CRITICAL system0))) ! 0 =
       Alarm (object system0) ! 0"
    "ExtendedAlarmStatus (object (snd (AlarmsSet 4 3 SYSTEMALARMS_ALARM_CRITICAL system0))) =
       ExtendedAlarmStatus (object system0)"
    "ExtendedAlarmSubStatus (object (snd (AlarmsSet 4 3 SYSTEMALARMS_ALARM_CRITICAL system0))) =
       ExtendedAlarmSubStatus (object system0)"
    "object (snd (ExtendedAlarmsSet 2 3 SYSTEMALARMS_ALARM_CRITICAL 9 9 system0)) =
       object system0"
    "ExtendedAlarmStatus (object (snd (AlarmsClear 4 2 3 system0))) =
       ExtendedAlarmStatus (object system0)"
    "ExtendedAlarmSubStatus (object (snd (AlarmsClear 4 2 3 system0))) =
       ExtendedAlarmSubStatus (object system0)"
    by blast+
  from extended pre have b:
    "Alarm (object (snd (ExtendedAlarmsSet 2 1 SYSTEMALARMS_ALARM_WARNING 9 9 system0))) ! 0 =
       Alarm (object system0) ! 0"
    "ExtendedAlarmStatus
       (object (snd (ExtendedAlarmsSet 2 1 SYSTEMALARMS_ALARM_WARNING 9 9 system0))) ! 0 =
       ExtendedAlarmStatus (object system0) ! 0"
    "ExtendedAlarmSubStatus
       (object (snd (ExtendedAlarmsSet 2 1 SYSTEMALARMS_ALARM_WARNING 9 9 system0))) ! 0 =
       ExtendedAlarmSubStatus (object system0) ! 0"
    by blast+
  show ?thesis
    unfolding a b before by simp
qed

subsection \<open>Reads and the lock\<close>

text \<open>
  The events of one call are the ones its final trace has beyond the trace it started
  from. Wherever else alarms.c reads the record, in \<open>AlarmsSet\<close>,
  \<open>ExtendedAlarmsSet\<close> and \<open>hasSeverity\<close>, the read is made between a take and a
  give: with the mutex obtained, by a task that held nothing, it is a read under the
  lock.
\<close>

lemma locked_paths_read_under_lock:
  assumes "lock_free s"
  shows "(alarm < ALARM_NUMELEM \<longrightarrow>
            reads_locked 0 (drop (length (trace s))
              (trace (snd (AlarmsSet ALARM_NUMELEM alarm severity s))))) \<and>
         (alarm < EXTENDEDALARMSTATUS_NUMELEM \<longrightarrow>
            reads_locked 0 (drop (length (trace s))
              (trace (snd (ExtendedAlarmsSet EXTENDEDALARMSTATUS_NUMELEM alarm severity status
                 subStatus s))))) \<and>
         reads_locked 0 (drop (length (trace s))
           (trace (snd (hasSeverity ALARM_NUMELEM severity s))))"
proof (intro conjI impI)
  assume "alarm < ALARM_NUMELEM"
  with assms show "reads_locked 0 (drop (length (trace s))
      (trace (snd (AlarmsSet ALARM_NUMELEM alarm severity s))))"
    by (cases "Alarm (object s) ! alarm = severity")
       (simp_all add: AlarmsSet_eq AlarmsSet_neq)
next
  assume "alarm < EXTENDEDALARMSTATUS_NUMELEM"
  with assms show "reads_locked 0 (drop (length (trace s))
      (trace (snd (ExtendedAlarmsSet EXTENDEDALARMSTATUS_NUMELEM alarm severity status
         subStatus s))))"
    by (cases "Alarm (object s) ! alarm = severity")
       (simp_all add: ExtendedAlarmsSet_eq ExtendedAlarmsSet_neq)
next
  from assms show "reads_locked 0 (drop (length (trace s))
      (trace (snd (hasSeverity ALARM_NUMELEM severity s))))"
    by (simp add: hasSeverity_result)
qed

text \<open>
  \<open>AlarmsGet\<close> on a valid identifier reads the record once and returns the stored
  severity, with no take and no give: whatever the state, its one event is the read,
  which is not a read under the lock for a task that held nothing.
\<close>

lemma AlarmsGet_in_range:
  assumes "alarm < ALARM_NUMELEM"
  shows "AlarmsGet ALARM_NUMELEM alarm s =
           (Alarm (object s) ! alarm, s\<lparr>trace := trace s @ [ObjGet]\<rparr>) \<and>
         \<not> reads_locked 0 (drop (length (trace s))
              (trace (snd (AlarmsGet ALARM_NUMELEM alarm s))))"
  using assms by (simp add: AlarmsGet_def SystemAlarmsGet_def)

text \<open>
  C8. \<open>AlarmsGet\<close> on a valid identifier is to read the record while holding the
  mutex that \<open>AlarmsSet\<close> and \<open>ExtendedAlarmsSet\<close> use, taken before the read and
  given before returning. The code of \<open>AlarmsGet\<close> has no take and no give: called
  with the valid identifier 0 on \<open>system0\<close>, where the mutex is free and the calling
  task holds nothing, its only event is the read, which is not a read under the lock.
\<close>

theorem AlarmsGet_reads_unlocked:
  "(0::nat) < 4 \<and> lock_depth system0 = 0 \<and> trace system0 = [] \<and>
   trace (snd (AlarmsGet 4 0 system0)) = [ObjGet] \<and>
   \<not> reads_locked (lock_depth system0) (trace (snd (AlarmsGet 4 0 system0)))"
  by (simp add: AlarmsGet_def SystemAlarmsGet_def)

text \<open>
  C9. For an identifier from N on, \<open>AlarmsGet\<close> returns the member of the
  enumeration numbered 0, Uninitialised, and the state is untouched: no read of the
  record, no event at all.
\<close>

theorem AlarmsGet_invalid:
  assumes "ALARM_NUMELEM \<le> alarm"
  shows "AlarmsGet ALARM_NUMELEM alarm s = (SYSTEMALARMS_ALARM_UNINITIALISED, s) \<and>
         options_value (fst (AlarmsGet ALARM_NUMELEM alarm s)) = 0"
  using assms by (simp add: AlarmsGet_def)

theorem AlarmsGet_invalid_witness:
  "(4::nat) \<le> 4 \<and> AlarmsGet 4 4 system0 = (SYSTEMALARMS_ALARM_UNINITIALISED, system0) \<and>
   options_value (fst (AlarmsGet 4 4 system0)) = 0"
  using AlarmsGet_invalid [of 4 4 system0] by simp

text \<open>
  C10. \<open>hasSeverity\<close> returns 0 or 1 in every state, the same with the lock
  obtained or not; it drops the result of the take, reads the record once, gives the
  lock and leaves the record and the number of write-backs as they were. The three
  wrappers are \<open>hasSeverity\<close>. When the lock is not obtained it still answers the
  scan, while \<open>AlarmsSet\<close> and \<open>ExtendedAlarmsSet\<close> on a valid identifier
  return -1.
\<close>

theorem hasSeverity_has_no_error:
  "(fst (hasSeverity ALARM_NUMELEM severity s) = 0 \<or>
    fst (hasSeverity ALARM_NUMELEM severity s) = 1) \<and>
   fst (hasSeverity ALARM_NUMELEM severity s) =
     fst (hasSeverity ALARM_NUMELEM severity (s\<lparr>lock_free := True\<rparr>)) \<and>
   object (snd (hasSeverity ALARM_NUMELEM severity s)) = object s \<and>
   trace (snd (hasSeverity ALARM_NUMELEM severity s)) =
     trace s @ [TakeRecursive (lock_free s), ObjGet, GiveRecursive] \<and>
   write_backs (trace (snd (hasSeverity ALARM_NUMELEM severity s))) = write_backs (trace s) \<and>
   AlarmsHasWarnings ALARM_NUMELEM s = hasSeverity ALARM_NUMELEM SYSTEMALARMS_ALARM_WARNING s \<and>
   AlarmsHasErrors ALARM_NUMELEM s = hasSeverity ALARM_NUMELEM SYSTEMALARMS_ALARM_ERROR s \<and>
   AlarmsHasCritical ALARM_NUMELEM s = hasSeverity ALARM_NUMELEM SYSTEMALARMS_ALARM_CRITICAL s \<and>
   (\<not> lock_free s \<longrightarrow>
      fst (hasSeverity ALARM_NUMELEM severity s) =
        (if \<exists>n<ALARM_NUMELEM.
              options_value severity \<le> options_value (Alarm (object s) ! n)
         then 1 else 0)) \<and>
   (\<not> lock_free s \<and> alarm < ALARM_NUMELEM \<longrightarrow>
      fst (AlarmsSet ALARM_NUMELEM alarm severity' s) = - 1) \<and>
   (\<not> lock_free s \<and> alarm < EXTENDEDALARMSTATUS_NUMELEM \<longrightarrow>
      fst (ExtendedAlarmsSet EXTENDEDALARMSTATUS_NUMELEM alarm severity' status subStatus s)
        = - 1)"
proof (intro conjI impI)
  show "fst (hasSeverity ALARM_NUMELEM severity s) = 0 \<or>
    fst (hasSeverity ALARM_NUMELEM severity s) = 1"
    by (simp add: hasSeverity_result)
  show "fst (hasSeverity ALARM_NUMELEM severity s) =
     fst (hasSeverity ALARM_NUMELEM severity (s\<lparr>lock_free := True\<rparr>))"
    by (simp add: hasSeverity_result)
  show "object (snd (hasSeverity ALARM_NUMELEM severity s)) = object s"
    by (simp add: hasSeverity_result)
  show "trace (snd (hasSeverity ALARM_NUMELEM severity s)) =
     trace s @ [TakeRecursive (lock_free s), ObjGet, GiveRecursive]"
    by (simp add: hasSeverity_result)
  show "write_backs (trace (snd (hasSeverity ALARM_NUMELEM severity s))) =
      write_backs (trace s)"
    by (simp add: hasSeverity_result)
  show "AlarmsHasWarnings ALARM_NUMELEM s =
      hasSeverity ALARM_NUMELEM SYSTEMALARMS_ALARM_WARNING s"
    by (simp add: AlarmsHasWarnings_def)
  show "AlarmsHasErrors ALARM_NUMELEM s = hasSeverity ALARM_NUMELEM SYSTEMALARMS_ALARM_ERROR s"
    by (simp add: AlarmsHasErrors_def)
  show "AlarmsHasCritical ALARM_NUMELEM s =
      hasSeverity ALARM_NUMELEM SYSTEMALARMS_ALARM_CRITICAL s"
    by (simp add: AlarmsHasCritical_def)
  show "fst (hasSeverity ALARM_NUMELEM severity s) =
        (if \<exists>n<ALARM_NUMELEM.
              options_value severity \<le> options_value (Alarm (object s) ! n)
         then 1 else 0)"
    by (rule hasSeverity_fst)
next
  assume "\<not> lock_free s \<and> alarm < ALARM_NUMELEM"
  then show "fst (AlarmsSet ALARM_NUMELEM alarm severity' s) = - 1"
    by (simp add: AlarmsSet_lock_failed)
next
  assume "\<not> lock_free s \<and> alarm < EXTENDEDALARMSTATUS_NUMELEM"
  then show
    "fst (ExtendedAlarmsSet EXTENDEDALARMSTATUS_NUMELEM alarm severity' status subStatus s)
        = - 1"
    by (simp add: ExtendedAlarmsSet_lock_failed)
qed

theorem hasSeverity_has_no_error_witness:
  "\<not> lock_free system_busy \<and>
   fst (hasSeverity 4 SYSTEMALARMS_ALARM_ERROR system_busy) = 1 \<and>
   fst (hasSeverity 4 SYSTEMALARMS_ALARM_CRITICAL system_busy) = 0 \<and>
   object (snd (hasSeverity 4 SYSTEMALARMS_ALARM_ERROR system_busy)) = table0 \<and>
   trace (snd (hasSeverity 4 SYSTEMALARMS_ALARM_ERROR system_busy)) =
     [TakeRecursive False, ObjGet, GiveRecursive] \<and>
   fst (AlarmsSet 4 1 SYSTEMALARMS_ALARM_ERROR system_busy) = - 1 \<and>
   fst (ExtendedAlarmsSet 2 1 SYSTEMALARMS_ALARM_ERROR 9 9 system_busy) = - 1"
proof -
  have pre: "\<not> lock_free system_busy" "(1::nat) < 4" "(1::nat) < 2"
    by simp_all
  have err: "\<exists>n<4. options_value SYSTEMALARMS_ALARM_ERROR \<le>
      options_value (Alarm (object system_busy) ! n)"
    by (rule exI [of _ 0]) simp
  have crit: "\<not> (\<exists>n<4. options_value SYSTEMALARMS_ALARM_CRITICAL \<le>
      options_value (Alarm (object system_busy) ! n))"
    by (simp add: less_Suc_eq numeral_nat nth_Cons')
  note e = hasSeverity_has_no_error
    [of 4 SYSTEMALARMS_ALARM_ERROR system_busy 1 SYSTEMALARMS_ALARM_ERROR 2 9 9]
  note c = hasSeverity_has_no_error
    [of 4 SYSTEMALARMS_ALARM_CRITICAL system_busy 1 SYSTEMALARMS_ALARM_ERROR 2 9 9]
  from e pre have "fst (hasSeverity 4 SYSTEMALARMS_ALARM_ERROR system_busy) =
      (if \<exists>n<4. options_value SYSTEMALARMS_ALARM_ERROR \<le>
            options_value (Alarm (object system_busy) ! n)
       then 1 else 0)"
    by blast
  with err have e1: "fst (hasSeverity 4 SYSTEMALARMS_ALARM_ERROR system_busy) = 1"
    by (simp only: if_True)
  from c pre have "fst (hasSeverity 4 SYSTEMALARMS_ALARM_CRITICAL system_busy) =
      (if \<exists>n<4. options_value SYSTEMALARMS_ALARM_CRITICAL \<le>
            options_value (Alarm (object system_busy) ! n)
       then 1 else 0)"
    by blast
  with crit have c1: "fst (hasSeverity 4 SYSTEMALARMS_ALARM_CRITICAL system_busy) = 0"
    by (simp only: if_False)
  from e pre have rest:
    "object (snd (hasSeverity 4 SYSTEMALARMS_ALARM_ERROR system_busy)) = object system_busy"
    "trace (snd (hasSeverity 4 SYSTEMALARMS_ALARM_ERROR system_busy)) =
       trace system_busy @ [TakeRecursive (lock_free system_busy), ObjGet, GiveRecursive]"
    "fst (AlarmsSet 4 1 SYSTEMALARMS_ALARM_ERROR system_busy) = - 1"
    "fst (ExtendedAlarmsSet 2 1 SYSTEMALARMS_ALARM_ERROR 9 9 system_busy) = - 1"
    by blast+
  from e1 c1 rest show ?thesis
    by simp
qed

end
